theory Spec2Isabelle
  imports Main "HOL-Library.Sublist" "HOL-Library.Multiset"
begin

section \<open>Python values shared by the three modules\<close>

text \<open>
  Every exception the modelled code can raise is a value of \<open>error\<close>; a method that can
  raise returns \<open>error + 'a\<close> with \<open>Inl\<close> for the exception.  \<open>ClientException\<close> is
  swiftclient's exception and carries its \<open>http_status\<close>.
\<close>

datatype error =
    ClientException int
  | AttributeError
  | IndexError
  | KeyError
  | ValueError
  | DoesNotExist
  | IntegrityError

text \<open>\<open>str.split(sep)\<close> for a one-character separator: \<open>''''.split('/') = ['''']\<close>.\<close>

fun split_on :: "char \<Rightarrow> string \<Rightarrow> string list" where
  "split_on c [] = [[]]"
| "split_on c (x # xs) =
     (if x = c then [] # split_on c xs
      else (case split_on c xs of [] \<Rightarrow> [[x]] | w # ws \<Rightarrow> (x # w) # ws))"

text \<open>\<open>sep.join(parts)\<close>.\<close>

fun join_with :: "string \<Rightarrow> string list \<Rightarrow> string" where
  "join_with sep [] = []"
| "join_with sep [x] = x"
| "join_with sep (x # y # ys) = x @ sep @ join_with sep (y # ys)"

text \<open>
  The characters \<open>str.strip()\<close> removes, as far as they are single bytes: tab, line feed,
  vertical tab, form feed, carriage return, the four separators 0x1C..0x1F and the space.
\<close>

definition isspace :: "char \<Rightarrow> bool" where
  "isspace c = (of_char c \<in> {9::nat, 10, 11, 12, 13, 28, 29, 30, 31, 32})"

definition strip :: "string \<Rightarrow> string" where
  "strip s = rev (dropWhile isspace (rev (dropWhile isspace s)))"

text \<open>\<open>s.replace(',', '')\<close>.\<close>

definition remove_commas :: "string \<Rightarrow> string" where
  "remove_commas s = filter (\<lambda>c. c \<noteq> CHR '','') s"

text \<open>\<open>s.lstrip('/')\<close>.\<close>

definition lstrip_slash :: "string \<Rightarrow> string" where
  "lstrip_slash s = dropWhile (\<lambda>c. c = CHR ''/'') s"


section \<open>pathlib: pure POSIX paths\<close>

text \<open>
  \<open>Path(s)\<close> keeps a root (\<open>''\<close>, \<open>'/'\<close>, or \<open>'//'\<close> for exactly two leading slashes) and
  the components of \<open>s\<close> with the empty ones and the \<open>'.'\<close> ones dropped.
\<close>

record pure_path =
  root :: string
  parts :: "string list"

definition path_root :: "string \<Rightarrow> string" where
  "path_root s =
     (let n = length (takeWhile (\<lambda>c. c = CHR ''/'') s)
      in if n = 0 then [] else if n = 2 then ''//'' else ''/'')"

definition Path :: "string \<Rightarrow> pure_path" where
  "Path s = \<lparr>root = path_root s,
             parts = filter (\<lambda>x. x \<noteq> [] \<and> x \<noteq> ''.'') (split_on (CHR ''/'') s)\<rparr>"

text \<open>\<open>Path(*args)\<close> for components that hold no slash (what \<open>sanitize_obj_names\<close> passes).\<close>

definition Path_of_parts :: "string list \<Rightarrow> pure_path" where
  "Path_of_parts xs = \<lparr>root = [], parts = filter (\<lambda>x. x \<noteq> [] \<and> x \<noteq> ''.'') xs\<rparr>"

text \<open>\<open>p.name\<close>: the last component, or the empty string.\<close>

definition path_name :: "pure_path \<Rightarrow> string" where
  "path_name p = (if parts p = [] then [] else last (parts p))"

text \<open>\<open>p.relative_to(other).parts\<close>; raises \<open>ValueError\<close> unless \<open>other\<close> is a path prefix.\<close>

definition relative_to :: "pure_path \<Rightarrow> pure_path \<Rightarrow> error + string list" where
  "relative_to p other =
     (if root p = root other \<and> prefix (parts other) (parts p)
      then Inr (drop (length (parts other)) (parts p))
      else Inl ValueError)"

text \<open>\<open>p / q\<close> for a relative \<open>q\<close>.\<close>

definition path_join :: "pure_path \<Rightarrow> pure_path \<Rightarrow> pure_path" where
  "path_join p q = (if root q = [] then \<lparr>root = root p, parts = parts p @ parts q\<rparr> else q)"

text \<open>\<open>str(p)\<close>.\<close>

definition path_str :: "pure_path \<Rightarrow> string" where
  "path_str p =
     (if root p = [] \<and> parts p = [] then ''.''
      else root p @ join_with ''/'' (parts p))"


section \<open>core/storage/swiftmanager.py\<close>

subsection \<open>The Swift connection\<close>

text \<open>
  The store is one container of objects (key and contents).  The transport is a script
  of outcomes: every request takes the next outcome from the script, \<open>Served\<close> when the
  script is used up.  \<open>Failed status\<close> makes the request raise \<open>ClientException\<close> with that
  status.  \<open>sleeps\<close> counts the calls of \<open>time.sleep(0.4)\<close>, \<open>requests\<close> logs every request
  issued.
\<close>

datatype outcome = Served | Failed int

datatype request =
    Connect
  | GetContainer string bool
  | HeadObject string
  | CopyObject string string
  | DeleteObject string

record swift_manager =
  container_name :: string
  conn_cached :: bool
  objects :: "(string \<times> string) list"
  script :: "outcome list"
  sleeps :: nat
  requests :: "request list"

definition issue :: "request \<Rightarrow> swift_manager \<Rightarrow> outcome \<times> swift_manager" where
  "issue r m =
     (case script m of
        [] \<Rightarrow> (Served, m\<lparr>requests := requests m @ [r]\<rparr>)
      | oc # rest \<Rightarrow> (oc, m\<lparr>script := rest, requests := requests m @ [r]\<rparr>))"

definition sleep :: "swift_manager \<Rightarrow> swift_manager" where
  "sleep m = m\<lparr>sleeps := Suc (sleeps m)\<rparr>"

text \<open>A container listing holds 10000 names at most unless \<open>full_listing\<close> is set.\<close>

definition listing :: "string \<Rightarrow> bool \<Rightarrow> (string \<times> string) list \<Rightarrow> string list" where
  "listing pre full objs =
     (let names = filter (prefix pre) (map fst objs)
      in if full then names else take 10000 names)"

definition conn_get_container ::
  "string \<Rightarrow> bool \<Rightarrow> swift_manager \<Rightarrow> (int + string list) \<times> swift_manager" where
  "conn_get_container pre full m =
     (case issue (GetContainer pre full) m of
        (Failed st, m') \<Rightarrow> (Inl st, m')
      | (Served, m') \<Rightarrow> (Inr (listing pre full (objects m')), m'))"

definition conn_head_object :: "string \<Rightarrow> swift_manager \<Rightarrow> (int + unit) \<times> swift_manager" where
  "conn_head_object k m =
     (case issue (HeadObject k) m of
        (Failed st, m') \<Rightarrow> (Inl st, m')
      | (Served, m') \<Rightarrow>
          (if k \<in> fst ` set (objects m') then (Inr (), m') else (Inl 404, m')))"

text \<open>
  \<open>dest\<close> is \<open>/<container>/<key>\<close>.  A copy into another container leaves this one as it
  is.
\<close>

definition put_object :: "string \<Rightarrow> string \<Rightarrow> (string \<times> string) list \<Rightarrow> (string \<times> string) list" where
  "put_object k v objs = filter (\<lambda>kv. fst kv \<noteq> k) objs @ [(k, v)]"

definition conn_copy_object ::
  "string \<Rightarrow> string \<Rightarrow> swift_manager \<Rightarrow> (int + unit) \<times> swift_manager" where
  "conn_copy_object k dest m =
     (case issue (CopyObject k dest) m of
        (Failed st, m') \<Rightarrow> (Inl st, m')
      | (Served, m') \<Rightarrow>
          (case map_of (objects m') k of
             None \<Rightarrow> (Inl 404, m')
           | Some v \<Rightarrow>
               (let d = lstrip_slash dest;
                    c = takeWhile (\<lambda>x. x \<noteq> CHR ''/'') d;
                    k' = drop (Suc (length c)) d
                in if c = container_name m'
                   then (Inr (), m'\<lparr>objects := put_object k' v (objects m')\<rparr>)
                   else (Inr (), m'))))"

definition conn_delete_object :: "string \<Rightarrow> swift_manager \<Rightarrow> (int + unit) \<times> swift_manager" where
  "conn_delete_object k m =
     (case issue (DeleteObject k) m of
        (Failed st, m') \<Rightarrow> (Inl st, m')
      | (Served, m') \<Rightarrow>
          (if k \<in> fst ` set (objects m')
           then (Inr (), m'\<lparr>objects := filter (\<lambda>kv. fst kv \<noteq> k) (objects m')\<rparr>)
           else (Inl 404, m')))"

subsection \<open>SwiftManager\<close>

text \<open>
  Each method's \<open>for i in range(5)\<close> is a recursion over the list of the indices still
  to run.  A loop that runs out returns what the Python falls through to (\<open>None\<close>, or the
  initial \<open>l_ls\<close>).  \<open>get_connection\<close> (\<open>__get_connection\<close>) returns whether it holds a
  connection object.
\<close>

fun get_connection_attempts ::
  "nat list \<Rightarrow> swift_manager \<Rightarrow> (error + bool) \<times> swift_manager" where
  "get_connection_attempts [] m = (Inr False, m)"
| "get_connection_attempts (i # rest) m =
     (case issue Connect m of
        (Failed st, m') \<Rightarrow>
          (if i = 4 then (Inl (ClientException st), m')
           else get_connection_attempts rest (sleep m'))
      | (Served, m') \<Rightarrow> (Inr True, m'\<lparr>conn_cached := True\<rparr>))"

definition get_connection :: "swift_manager \<Rightarrow> (error + bool) \<times> swift_manager" where
  "get_connection m =
     (if conn_cached m then (Inr True, m) else get_connection_attempts [0..<5] m)"

fun ls_attempts ::
  "nat list \<Rightarrow> string \<Rightarrow> bool \<Rightarrow> swift_manager \<Rightarrow> (error + string list) \<times> swift_manager" where
  "ls_attempts [] path full m = (Inr [], m)"
| "ls_attempts (i # rest) path full m =
     (case conn_get_container path full m of
        (Inl st, m') \<Rightarrow>
          (if i = 4 then (Inl (ClientException st), m')
           else ls_attempts rest path full (sleep m'))
      | (Inr names, m') \<Rightarrow> (Inr names, m'))"

text \<open>\<open>_ls\<close> of the source.\<close>

definition ls_inner ::
  "string \<Rightarrow> bool \<Rightarrow> swift_manager \<Rightarrow> (error + string list) \<times> swift_manager" where
  "ls_inner path full m =
     (if path \<noteq> [] then
        (case get_connection m of
           (Inl e, m') \<Rightarrow> (Inl e, m')
         | (Inr c, m') \<Rightarrow>
             (if c then ls_attempts [0..<5] path full m' else (Inl AttributeError, m')))
      else (Inr [], m))"

definition ls :: "string \<Rightarrow> swift_manager \<Rightarrow> (error + string list) \<times> swift_manager" where
  "ls path m = ls_inner path True m"

definition path_exists :: "string \<Rightarrow> swift_manager \<Rightarrow> (error + bool) \<times> swift_manager" where
  "path_exists path m =
     (case ls_inner path False m of
        (Inl e, m') \<Rightarrow> (Inl e, m')
      | (Inr names, m') \<Rightarrow> (Inr (length names > 0), m'))"

text \<open>\<open>obj_exists\<close> returns \<open>Some b\<close> for the Python \<open>b\<close> and \<open>None\<close> for \<open>None\<close>.\<close>

fun obj_exists_attempts ::
  "nat list \<Rightarrow> string \<Rightarrow> swift_manager \<Rightarrow> (error + bool option) \<times> swift_manager" where
  "obj_exists_attempts [] obj_path m = (Inr None, m)"
| "obj_exists_attempts (i # rest) obj_path m =
     (case conn_head_object obj_path m of
        (Inl st, m') \<Rightarrow>
          (if st = 404 then (Inr (Some False), m')
           else if i = 4 then (Inl (ClientException st), m')
           else obj_exists_attempts rest obj_path (sleep m'))
      | (Inr u, m') \<Rightarrow> (Inr (Some True), m'))"

definition obj_exists ::
  "string \<Rightarrow> swift_manager \<Rightarrow> (error + bool option) \<times> swift_manager" where
  "obj_exists obj_path m =
     (case get_connection m of
        (Inl e, m') \<Rightarrow> (Inl e, m')
      | (Inr c, m') \<Rightarrow>
          (if c then obj_exists_attempts [0..<5] obj_path m' else (Inl AttributeError, m')))"

fun copy_obj_attempts ::
  "nat list \<Rightarrow> string \<Rightarrow> string \<Rightarrow> swift_manager \<Rightarrow> (error + unit) \<times> swift_manager" where
  "copy_obj_attempts [] obj_path dest m = (Inr (), m)"
| "copy_obj_attempts (i # rest) obj_path dest m =
     (case conn_copy_object obj_path dest m of
        (Inl st, m') \<Rightarrow>
          (if i = 4 then (Inl (ClientException st), m')
           else copy_obj_attempts rest obj_path dest (sleep m'))
      | (Inr u, m') \<Rightarrow> (Inr (), m'))"

text \<open>\<open>os.path.join(a, b)\<close> for a \<open>b\<close> that has no leading slash.\<close>

definition os_path_join :: "string \<Rightarrow> string \<Rightarrow> string" where
  "os_path_join a b =
     (if a = [] \<or> last a = CHR ''/'' then a @ b else a @ ''/'' @ b)"

definition copy_obj ::
  "string \<Rightarrow> string \<Rightarrow> swift_manager \<Rightarrow> (error + unit) \<times> swift_manager" where
  "copy_obj obj_path dest_path m =
     (case get_connection m of
        (Inl e, m') \<Rightarrow> (Inl e, m')
      | (Inr c, m') \<Rightarrow>
          (let dest = os_path_join (''/'' @ container_name m') (lstrip_slash dest_path)
           in if c then copy_obj_attempts [0..<5] obj_path dest m'
              else (Inl AttributeError, m')))"

fun delete_obj_attempts ::
  "nat list \<Rightarrow> string \<Rightarrow> swift_manager \<Rightarrow> (error + unit) \<times> swift_manager" where
  "delete_obj_attempts [] obj_path m = (Inr (), m)"
| "delete_obj_attempts (i # rest) obj_path m =
     (case conn_delete_object obj_path m of
        (Inl st, m') \<Rightarrow>
          (if i = 4 then (Inl (ClientException st), m')
           else delete_obj_attempts rest obj_path (sleep m'))
      | (Inr u, m') \<Rightarrow> (Inr (), m'))"

definition delete_obj :: "string \<Rightarrow> swift_manager \<Rightarrow> (error + unit) \<times> swift_manager" where
  "delete_obj obj_path m =
     (case get_connection m of
        (Inl e, m') \<Rightarrow> (Inl e, m')
      | (Inr c, m') \<Rightarrow>
          (if c then delete_obj_attempts [0..<5] obj_path m' else (Inl AttributeError, m')))"

subsection \<open>sanitize_obj_names\<close>

text \<open>The inner loop over the parts of the relative path.\<close>

fun new_parts_of :: "string list \<Rightarrow> string list" where
  "new_parts_of [] = []"
| "new_parts_of (part # rest) =
     (let new_part = remove_commas part
      in if strip new_part \<noteq> [] then new_part # new_parts_of rest else new_parts_of rest)"

text \<open>The loop over \<open>l_ls\<close>; \<open>new_obj_paths\<close> is the dictionary being filled.\<close>

fun sanitize_loop ::
  "pure_path \<Rightarrow> string list \<Rightarrow> (string \<rightharpoonup> string) \<Rightarrow> swift_manager \<Rightarrow>
     (error + (string \<rightharpoonup> string)) \<times> swift_manager" where
  "sanitize_loop p [] new_obj_paths m = (Inr new_obj_paths, m)"
| "sanitize_loop p (obj_path # rest) new_obj_paths m =
     (let p_obj = Path obj_path in
      if strip (remove_commas (path_name p_obj)) = [] then
        (case delete_obj obj_path m of
           (Inl e, m') \<Rightarrow> (Inl e, m')
         | (Inr u, m') \<Rightarrow> sanitize_loop p rest (new_obj_paths(obj_path \<mapsto> [])) m')
      else
        (case relative_to p_obj p of
           Inl e \<Rightarrow> (Inl e, m)
         | Inr rel \<Rightarrow>
             (let new_p_obj = path_join p (Path_of_parts (new_parts_of rel)) in
              if new_p_obj \<noteq> p_obj then
                (let new_obj_path = path_str new_p_obj in
                 case copy_obj obj_path new_obj_path m of
                   (Inl e, m') \<Rightarrow> (Inl e, m')
                 | (Inr u, m') \<Rightarrow>
                     (case delete_obj obj_path m' of
                        (Inl e, m'') \<Rightarrow> (Inl e, m'')
                      | (Inr u', m'') \<Rightarrow>
                          sanitize_loop p rest (new_obj_paths(obj_path \<mapsto> new_obj_path)) m''))
              else sanitize_loop p rest new_obj_paths m)))"

definition sanitize_obj_names ::
  "string \<Rightarrow> swift_manager \<Rightarrow> (error + (string \<rightharpoonup> string)) \<times> swift_manager" where
  "sanitize_obj_names path m =
     (case ls path m of
        (Inl e, m') \<Rightarrow> (Inl e, m')
      | (Inr l_ls, m') \<Rightarrow>
          (if length l_ls \<noteq> 1 \<or> hd l_ls \<noteq> path
           then sanitize_loop (Path path) l_ls Map.empty m'
           else (Inr Map.empty, m')))"


subsection \<open>Example stores\<close>

text \<open>The container of the sanitization example: two objects under \<open>PIPELINES\<close>.\<close>

definition example_store :: swift_manager where
  "example_store =
     \<lparr>container_name = ''users'', conn_cached = False,
      objects = [(''PIPELINES/a,b/c, .txt'', ''one''), (''PIPELINES/a,b/ ,,/x.txt'', ''two'')],
      script = [], sleeps = 0, requests = []\<rparr>"

text \<open>The same container behind a connected manager whose transport follows a script.\<close>

definition scripted_store :: "outcome list \<Rightarrow> swift_manager" where
  "scripted_store oc = example_store\<lparr>conn_cached := True, script := oc\<rparr>"

text \<open>A container whose only object has a leaf name of commas and blanks.\<close>

definition blank_leaf_store :: swift_manager where
  "blank_leaf_store =
     \<lparr>container_name = ''users'', conn_cached = True,
      objects = [(''PIPELINES/a,b/ ,, '', ''three'')],
      script = [], sleeps = 0, requests = []\<rparr>"

text \<open>A container of one object, with commas and a blank component in its key.\<close>

definition lone_store :: swift_manager where
  "lone_store =
     \<lparr>container_name = ''users'', conn_cached = False,
      objects = [(''PIPELINES/ ,,/a,b.txt'', ''four'')],
      script = [], sleeps = 0, requests = []\<rparr>"

subsection \<open>Observations on a run\<close>

text \<open>The requests that change the container.\<close>

definition mutating :: "request \<Rightarrow> bool" where
  "mutating r = (case r of CopyObject k d \<Rightarrow> True | DeleteObject k \<Rightarrow> True | _ \<Rightarrow> False)"

text \<open>\<open>quiet m m'\<close>: between the two states no object changed and no copy or delete was sent.\<close>

definition quiet :: "swift_manager \<Rightarrow> swift_manager \<Rightarrow> bool" where
  "quiet m m' \<longleftrightarrow> objects m' = objects m \<and>
     filter mutating (requests m') = filter mutating (requests m)"


section \<open>plugininstances/models.py\<close>

subsection \<open>Rows\<close>

text \<open>
  A \<open>PluginInstance\<close> row with the attributes the methods read: its primary key, the
  name and type of its plugin, the key of its \<open>previous\<close> row, the key of its feed
  (\<open>None\<close> while the instance has no \<open>feed\<close> attribute) and its owner's username.  The
  table is the list of rows in the order a query returns them.
\<close>

record plugin_instance =
  inst_id :: int
  plugin_name :: string
  plugin_type :: string
  previous :: "int option"
  feed :: "int option"
  owner_username :: string

type_synonym instances = "plugin_instance list"

definition get_instance :: "instances \<Rightarrow> int \<Rightarrow> plugin_instance option" where
  "get_instance db i = find (\<lambda>r. inst_id r = i) db"

text \<open>\<open>'{}'.format(i)\<close> for an integer: its decimal digits.\<close>

function digits :: "nat \<Rightarrow> string" where
  "digits n =
     (if n < 10 then [''0123456789'' ! n]
      else digits (n div 10) @ [''0123456789'' ! (n mod 10)])"
  by pat_completeness auto
termination
  by (relation "measure (\<lambda>n. n)") auto

declare digits.simps [simp del]

definition str_int :: "int \<Rightarrow> string" where
  "str_int i = (if i < 0 then CHR ''-'' # digits (nat (- i)) else digits (nat i))"

subsection \<open>get_root_instance\<close>

text \<open>
  Following \<open>current.previous\<close> reads the row the key names (\<open>DoesNotExist\<close> when there
  is none); on a null \<open>previous\<close> the next \<open>current.plugin\<close> raises \<open>AttributeError\<close>.
  The loop has no bound, so the walk is a partial function: \<open>None\<close> is a walk that
  never returns.
\<close>

partial_function (option) root_walk ::
  "instances \<Rightarrow> plugin_instance \<Rightarrow> (error + plugin_instance) option" where
  "root_walk db current =
     (if \<not> plugin_type current = ''fs'' then
        (case previous current of
           None \<Rightarrow> Some (Inl AttributeError)
         | Some p \<Rightarrow>
             (case get_instance db p of
                None \<Rightarrow> Some (Inl DoesNotExist)
              | Some c \<Rightarrow> root_walk db c))
      else Some (Inr current))"

declare root_walk.simps [code]

definition get_root_instance ::
  "instances \<Rightarrow> plugin_instance \<Rightarrow> (error + plugin_instance) option" where
  "get_root_instance db self = root_walk db self"

subsection \<open>get_descendant_instances\<close>





subsection \<open>get_output_path\<close>

text \<open>\<open>'/{0}_{1}'.format(current.plugin.name, current.id)\<close>.\<close>

definition segment :: "plugin_instance \<Rightarrow> string" where
  "segment current = ''/'' @ plugin_name current @ ''_'' @ str_int (inst_id current)"

partial_function (option) output_path_walk ::
  "instances \<Rightarrow> plugin_instance \<Rightarrow> string \<Rightarrow> (error + plugin_instance \<times> string) option" where
  "output_path_walk db current path =
     (if \<not> plugin_type current = ''fs'' then
        (case previous current of
           None \<Rightarrow> Some (Inl AttributeError)
         | Some p \<Rightarrow>
             (case get_instance db p of
                None \<Rightarrow> Some (Inl DoesNotExist)
              | Some c \<Rightarrow> output_path_walk db c (segment c @ path)))
      else Some (Inr (current, path)))"

declare output_path_walk.simps [code]

definition get_output_path :: "instances \<Rightarrow> plugin_instance \<Rightarrow> (error + string) option" where
  "get_output_path db self =
     (case output_path_walk db self (segment self @ ''/data'') of
        None \<Rightarrow> None
      | Some (Inl e) \<Rightarrow> Some (Inl e)
      | Some (Inr (current, path)) \<Rightarrow>
          (case feed current of
             None \<Rightarrow> Some (Inl DoesNotExist)
           | Some feed_id \<Rightarrow>
               Some (Inr (owner_username self @ ''/feed_'' @ str_int feed_id @ path))))"

subsection \<open>save\<close>

text \<open>
  The \<open>Feed\<close> table: \<open>Feed().save()\<close> stores a row under the next key, and
  \<open>feed.owner.set\<close> sets its owners.
\<close>

record feed_row =
  feed_id :: int
  feed_name :: string
  feed_owners :: "string list"

record database =
  instances :: instances
  feeds :: "feed_row list"

definition next_feed_id :: "feed_row list \<Rightarrow> int" where
  "next_feed_id fs = fold max (map feed_id fs) 0 + 1"

text \<open>\<open>_save_feed\<close>: the new feed is named after the plugin and owned by the owner.\<close>

definition save_feed :: "database \<Rightarrow> plugin_instance \<Rightarrow> feed_row \<times> database" where
  "save_feed db self =
     (let f = \<lparr>feed_id = next_feed_id (feeds db), feed_name = plugin_name self,
                feed_owners = [owner_username self]\<rparr>
      in (f, db\<lparr>feeds := feeds db @ [f]\<rparr>))"

text \<open>
  \<open>models.Model.save\<close>, as far as the declaration of \<open>feed\<close> (no \<open>null=True\<close>) decides
  it: a row without a feed is rejected with \<open>IntegrityError\<close>, any other row is stored
  under its primary key.
\<close>

definition model_save :: "database \<Rightarrow> plugin_instance \<Rightarrow> (error + plugin_instance) \<times> database" where
  "model_save db self =
     (if feed self = None then (Inl IntegrityError, db)
      else (Inr self,
            db\<lparr>instances := filter (\<lambda>r. inst_id r \<noteq> inst_id self) (instances db) @ [self]\<rparr>))"

text \<open>The two \<open>if\<close>s on the plugin type run one after the other, as in the source.\<close>

definition save :: "database \<Rightarrow> plugin_instance \<Rightarrow> (error + plugin_instance) \<times> database" where
  "save db self =
     (if feed self = None then
        (let (self1, db1) =
               (if plugin_type self = ''fs''
                then (let (f, db') = save_feed db self in (self\<lparr>feed := Some (feed_id f)\<rparr>, db'))
                else (self, db))
         in if plugin_type self1 = ''ds'' then
              (case previous self1 of
                 None \<Rightarrow> (Inl AttributeError, db1)
               | Some p \<Rightarrow>
                   (case get_instance (instances db1) p of
                      None \<Rightarrow> (Inl DoesNotExist, db1)
                    | Some prev \<Rightarrow>
                        (case feed prev of
                           None \<Rightarrow> (Inl DoesNotExist, db1)
                         | Some f \<Rightarrow> model_save db1 (self1\<lparr>feed := Some f\<rparr>))))
            else model_save db1 self1)
      else model_save db self)"

subsection \<open>register_output_files\<close>

text \<open>
  The connection of \<open>register_output_files\<close> is its own: \<open>conn k prefix\<close> is what the
  call of \<open>get_container\<close> number \<open>k\<close> (from 0) returns for that prefix, a listing or a
  \<open>ClientException\<close>, which nothing catches.  \<open>kwargs\<close> and the dictionaries in it are
  maps.  The loop sleeps once per poll, so \<open>pollLoop\<close> also counts the sleeps.
\<close>

type_synonym polled_container = "nat \<Rightarrow> string \<Rightarrow> error + string list"

function poll ::
  "polled_container \<Rightarrow> string \<Rightarrow> int \<Rightarrow> string list \<Rightarrow> nat \<Rightarrow> error + string list \<times> nat" where
  "poll conn output_path objectsReportedInSwift object_list pollLoop =
     (if int (length object_list) \<le> objectsReportedInSwift \<and> pollLoop < 20 then
        (case conn pollLoop output_path of
           Inl e \<Rightarrow> Inl e
         | Inr l \<Rightarrow> poll conn output_path objectsReportedInSwift l (pollLoop + 1))
      else Inr (object_list, pollLoop))"
  by pat_completeness auto
termination
  by (relation "measure (\<lambda>(conn, output_path, reported, object_list, pollLoop). 20 - pollLoop)") auto

declare poll.simps [simp del]

record plugin_instance_file =
  plugin_inst :: int
  fname :: string

record registration =
  status :: bool
  l_object :: "string list"
  total :: nat
  outputPath :: string
  pollLoop :: nat

definition register_output_files ::
  "instances \<Rightarrow> polled_container \<Rightarrow> plugin_instance \<Rightarrow>
   (string \<rightharpoonup> (string \<rightharpoonup> (string \<rightharpoonup> int))) \<Rightarrow>
   (error + registration \<times> plugin_instance_file list) option" where
  "register_output_files db conn self kwargs =
     (let d_swiftState = (case kwargs ''swiftState'' of None \<Rightarrow> Map.empty | Some v \<Rightarrow> v) in
      case get_output_path db self of
        None \<Rightarrow> None
      | Some (Inl e) \<Rightarrow> Some (Inl e)
      | Some (Inr output_path) \<Rightarrow>
          (case (case d_swiftState ''d_swiftstore'' of
                   None \<Rightarrow> Inr 0
                 | Some d \<Rightarrow> (case d ''filesPushed'' of None \<Rightarrow> Inl KeyError | Some n \<Rightarrow> Inr n)) of
             Inl e \<Rightarrow> Some (Inl e)
           | Inr objectsReportedInSwift \<Rightarrow>
               (case poll conn output_path objectsReportedInSwift [] 0 of
                  Inl e \<Rightarrow> Some (Inl e)
                | Inr (object_list, polls) \<Rightarrow>
                    Some (Inr (\<lparr>status = True, l_object = object_list,
                                total = length object_list, outputPath = output_path,
                                pollLoop = polls\<rparr>,
                               map (\<lambda>name. \<lparr>plugin_inst = inst_id self, fname = name\<rparr>)
                                 object_list)))))"

subsection \<open>Lineages\<close>

text \<open>
  \<open>lineage db c chain\<close>: \<open>chain\<close> lists \<open>c\<close> and its ancestors, from \<open>c\<close> up to a root;
  the root is the one row of type \<open>fs\<close> and has no \<open>previous\<close>, every other row names its
  parent.  The derivation is finite, so a lineage has no cycle.
\<close>

inductive lineage :: "instances \<Rightarrow> plugin_instance \<Rightarrow> plugin_instance list \<Rightarrow> bool" where
  lineage_root: "plugin_type r = ''fs'' \<Longrightarrow> previous r = None \<Longrightarrow> lineage db r [r]"
| lineage_step: "plugin_type c \<noteq> ''fs'' \<Longrightarrow> previous c = Some p \<Longrightarrow>
     get_instance db p = Some c' \<Longrightarrow> lineage db c' anc \<Longrightarrow> lineage db c (c # anc)"

text \<open>\<open>broken db c\<close>: the chain of \<open>c\<close> reaches a null \<open>previous\<close> before any \<open>fs\<close> row.\<close>

inductive broken :: "instances \<Rightarrow> plugin_instance \<Rightarrow> bool" where
  broken_here: "plugin_type c \<noteq> ''fs'' \<Longrightarrow> previous c = None \<Longrightarrow> broken db c"
| broken_step: "plugin_type c \<noteq> ''fs'' \<Longrightarrow> previous c = Some p \<Longrightarrow>
     get_instance db p = Some c' \<Longrightarrow> broken db c' \<Longrightarrow> broken db c"

text \<open>
  \<open>endless db S\<close>: no row of \<open>S\<close> is of type \<open>fs\<close> and each has its parent in \<open>S\<close>: the
  chains inside \<open>S\<close> never end, which in a finite table means they run into a cycle.
\<close>

definition endless :: "instances \<Rightarrow> plugin_instance set \<Rightarrow> bool" where
  "endless db S \<longleftrightarrow>
     (\<forall>c \<in> S. plugin_type c \<noteq> ''fs'' \<and>
        (\<exists>p c'. previous c = Some p \<and> get_instance db p = Some c' \<and> c' \<in> S))"

subsection \<open>Example tables\<close>

definition inst_root :: plugin_instance where
  "inst_root = \<lparr>inst_id = 1, plugin_name = ''pl-dircopy'', plugin_type = ''fs'',
     previous = None, feed = Some 7, owner_username = ''alice''\<rparr>"

definition inst_mid :: plugin_instance where
  "inst_mid = \<lparr>inst_id = 2, plugin_name = ''pl-med2img'', plugin_type = ''ds'',
     previous = Some 1, feed = Some 7, owner_username = ''alice''\<rparr>"

definition inst_leaf :: plugin_instance where
  "inst_leaf = \<lparr>inst_id = 13, plugin_name = ''pl-topo'', plugin_type = ''ts'',
     previous = Some 2, feed = Some 7, owner_username = ''alice''\<rparr>"

definition lineage_db :: instances where
  "lineage_db = [inst_leaf, inst_mid, inst_root]"

text \<open>Two rows of type \<open>ds\<close> that name each other.\<close>

definition cycle_a :: plugin_instance where
  "cycle_a = \<lparr>inst_id = 1, plugin_name = ''pl-a'', plugin_type = ''ds'',
     previous = Some 2, feed = Some 7, owner_username = ''alice''\<rparr>"

definition cycle_b :: plugin_instance where
  "cycle_b = \<lparr>inst_id = 2, plugin_name = ''pl-b'', plugin_type = ''ds'',
     previous = Some 1, feed = Some 7, owner_username = ''alice''\<rparr>"

definition cycle_db :: instances where
  "cycle_db = [cycle_a, cycle_b]"

text \<open>A row of type \<open>ds\<close> below a row of type \<open>ds\<close> that has no \<open>previous\<close>.\<close>

definition orphan_top :: plugin_instance where
  "orphan_top = \<lparr>inst_id = 1, plugin_name = ''pl-a'', plugin_type = ''ds'',
     previous = None, feed = Some 7, owner_username = ''alice''\<rparr>"

definition orphan_child :: plugin_instance where
  "orphan_child = \<lparr>inst_id = 2, plugin_name = ''pl-b'', plugin_type = ''ds'',
     previous = Some 1, feed = Some 7, owner_username = ''alice''\<rparr>"

definition orphan_db :: instances where
  "orphan_db = [orphan_top, orphan_child]"

text \<open>Instances about to be saved for the first time, and the database they go to.\<close>

definition fresh_fs :: plugin_instance where
  "fresh_fs = \<lparr>inst_id = 20, plugin_name = ''pl-dircopy'', plugin_type = ''fs'',
     previous = None, feed = None, owner_username = ''bob''\<rparr>"

definition fresh_ds :: plugin_instance where
  "fresh_ds = \<lparr>inst_id = 21, plugin_name = ''pl-med2img'', plugin_type = ''ds'',
     previous = Some 2, feed = None, owner_username = ''bob''\<rparr>"

definition fresh_ts :: plugin_instance where
  "fresh_ts = \<lparr>inst_id = 22, plugin_name = ''pl-topo'', plugin_type = ''ts'',
     previous = Some 2, feed = None, owner_username = ''bob''\<rparr>"

definition example_db :: database where
  "example_db = \<lparr>instances = lineage_db,
     feeds = [\<lparr>feed_id = 7, feed_name = ''pl-dircopy'', feed_owners = [''alice'']\<rparr>]\<rparr>"

subsection \<open>The \<open>next\<close> relation\<close>






subsection \<open>Example polls\<close>

text \<open>A container that lists the same two objects under a prefix at every poll.\<close>

definition two_files :: polled_container where
  "two_files k pre = Inr [pre @ ''/a.txt'', pre @ ''/b.txt'']"

text \<open>The keyword arguments with which the driver reports \<open>n\<close> pushed files.\<close>

definition files_pushed :: "int \<Rightarrow> (string \<rightharpoonup> (string \<rightharpoonup> (string \<rightharpoonup> int)))" where
  "files_pushed n = [''swiftState'' \<mapsto> [''d_swiftstore'' \<mapsto> [''filesPushed'' \<mapsto> n]]]"

section \<open>pipelines/models.py\<close>

subsection \<open>Rows\<close>

text \<open>
  A \<open>PluginPiping\<close> row: its key, its title, the key and the type of its plugin
  (\<open>piping.plugin.meta.type\<close>) and the key of its \<open>previous\<close> piping.  Following
  \<open>pip.previous\<close> reads the row of that key among the pipeline's pipings
  (\<open>DoesNotExist\<close> when there is none).
\<close>

record plugin_piping =
  pip_id :: int
  title :: string
  plugin_id :: int
  plugin_meta_type :: string
  pip_previous :: "int option"

definition get_piping :: "plugin_piping list \<Rightarrow> int \<Rightarrow> plugin_piping option" where
  "get_piping pipings i = find (\<lambda>p. pip_id p = i) pipings"

text \<open>
  The value of a default parameter: a string, an integer, a float (\<open>PFloat m e\<close> stands for
  \<open>m * 2 ^ e\<close>), a boolean or \<open>None\<close>; \<open>truthy\<close> is Python's truth test.
\<close>

datatype pyvalue = PStr string | PInt int | PFloat int int | PBool bool | PNone

fun truthy :: "pyvalue \<Rightarrow> bool" where
  "truthy (PStr s) = (s \<noteq> [])"
| "truthy (PInt i) = (i \<noteq> 0)"
| "truthy (PFloat m e) = (m \<noteq> 0)"
| "truthy (PBool b) = b"
| "truthy PNone = False"

text \<open>
  A default parameter row: the key of its piping, the name of its plugin parameter and
  its value.  A pipeline holds its pipings and the four tables of defaults, each in the
  order a query returns it.
\<close>

record default_param =
  plugin_piping :: int
  plugin_param_name :: string
  dp_value :: pyvalue

record pipeline =
  plugin_pipings :: "plugin_piping list"
  string_defaults :: "default_param list"
  integer_defaults :: "default_param list"
  float_defaults :: "default_param list"
  boolean_defaults :: "default_param list"

definition get_default_parameters :: "pipeline \<Rightarrow> default_param list" where
  "get_default_parameters self =
     string_defaults self @ integer_defaults self @ float_defaults self @ boolean_defaults self"

subsection \<open>get_pipings_tree\<close>

record tree_node =
  piping :: plugin_piping
  child_ids :: "int list"

text \<open>The loop over \<open>pipings\<close>; \<open>tbl\<close> is the table \<open>pip.previous\<close> is read from.\<close>

fun pipings_tree_loop ::
  "plugin_piping list \<Rightarrow> plugin_piping list \<Rightarrow> (int \<rightharpoonup> tree_node) \<Rightarrow>
     error + (int \<rightharpoonup> tree_node)" where
  "pipings_tree_loop tbl [] tree = Inr tree"
| "pipings_tree_loop tbl (pip # rest) tree =
     (if pip_id pip \<notin> dom tree then
        (let tree1 = tree(pip_id pip \<mapsto> \<lparr>piping = pip, child_ids = []\<rparr>) in
         case pip_previous pip of
           None \<Rightarrow> Inl AttributeError
         | Some prev_id \<Rightarrow>
             (case get_piping tbl prev_id of
                None \<Rightarrow> Inl DoesNotExist
              | Some prev \<Rightarrow>
                  (case tree1 prev_id of
                     Some node \<Rightarrow>
                       pipings_tree_loop tbl rest
                         (tree1(prev_id \<mapsto> node\<lparr>child_ids := child_ids node @ [pip_id pip]\<rparr>))
                   | None \<Rightarrow>
                       pipings_tree_loop tbl rest
                         (tree1(prev_id \<mapsto> \<lparr>piping = prev, child_ids = [pip_id pip]\<rparr>)))))
      else pipings_tree_loop tbl rest tree)"

definition get_pipings_tree ::
  "plugin_piping list \<Rightarrow> error + int \<times> (int \<rightharpoonup> tree_node)" where
  "get_pipings_tree pipings =
     (case filter (\<lambda>pip. pip_previous pip = None) pipings of
        [] \<Rightarrow> Inl IndexError
      | root_pip # others \<Rightarrow>
          (let root_id = pip_id root_pip;
               tree = [root_id \<mapsto> \<lparr>piping = root_pip, child_ids = []\<rparr>]
           in case pipings_tree_loop pipings pipings tree of
                Inl e \<Rightarrow> Inl e
              | Inr tree' \<Rightarrow> Inr (root_id, tree')))"

text \<open>What a result says about one piping: the root, and the children registered.\<close>

definition root_of :: "error + int \<times> (int \<rightharpoonup> tree_node) \<Rightarrow> int option" where
  "root_of r = (case r of Inl e \<Rightarrow> None | Inr (root_id, tree) \<Rightarrow> Some root_id)"

definition children_in :: "error + int \<times> (int \<rightharpoonup> tree_node) \<Rightarrow> int \<Rightarrow> int list option" where
  "children_in r i =
     (case r of Inl e \<Rightarrow> None | Inr (root_id, tree) \<Rightarrow> map_option child_ids (tree i))"

subsection \<open>get_plugin_tree\<close>

text \<open>
  \<open>int(s)\<close> for a string: blanks around it are dropped, then an optional sign, then
  decimal digits, in groups separated by single underscores; anything else raises
  \<open>ValueError\<close>.
\<close>

definition is_digit :: "char \<Rightarrow> bool" where
  "is_digit c = (c \<in> set ''0123456789'')"

definition digit_value :: "char \<Rightarrow> nat" where
  "digit_value c = of_char c - 48"

definition py_int :: "string \<Rightarrow> error + int" where
  "py_int s =
     (let t = strip s;
          neg = (t \<noteq> [] \<and> hd t = CHR ''-'');
          body = (if t \<noteq> [] \<and> (hd t = CHR ''-'' \<or> hd t = CHR ''+'') then tl t else t);
          groups = split_on (CHR ''_'') body
      in if list_all (\<lambda>g. g \<noteq> [] \<and> list_all is_digit g) groups
         then (let n = int (foldl (\<lambda>acc c. 10 * acc + digit_value c) 0 (concat groups))
               in Inr (if neg then - n else n))
         else Inl ValueError)"

text \<open>
  An entry of \<open>tree_nodes_dict\<close>.  The dictionary keeps the order in which its keys were
  inserted, which \<open>keys()\<close> follows, so it is a list of pairs.
\<close>

record plugin_tree_node =
  node_plugin_id :: int
  node_previous :: "string option"
  node_title :: string
  plugin_parameter_defaults :: "(string \<times> pyvalue) list"

type_synonym nodes_dict = "(string \<times> plugin_tree_node) list"

definition dict_update ::
  "string \<Rightarrow> (plugin_tree_node \<Rightarrow> plugin_tree_node) \<Rightarrow> nodes_dict \<Rightarrow> nodes_dict" where
  "dict_update k f d = map (\<lambda>(k', v). if k' = k then (k', f v) else (k', v)) d"

text \<open>The first loop, over the default parameters.\<close>

fun collect_nodes ::
  "plugin_piping list \<Rightarrow> default_param list \<Rightarrow>
   nodes_dict \<times> (int \<rightharpoonup> string) \<times> (string \<rightharpoonup> bool) \<Rightarrow>
   error + nodes_dict \<times> (int \<rightharpoonup> string) \<times> (string \<rightharpoonup> bool)" where
  "collect_nodes tbl [] acc = Inr acc"
| "collect_nodes tbl (default_param # rest) (tree_nodes_dict, id_to_title, is_ts_dict) =
     (case get_piping tbl (plugin_piping default_param) of
        None \<Rightarrow> Inl DoesNotExist
      | Some pip \<Rightarrow>
          (case (case pip_previous pip of
                   None \<Rightarrow> Inr None
                 | Some i \<Rightarrow>
                     (case get_piping tbl i of
                        None \<Rightarrow> Inl DoesNotExist
                      | Some prev \<Rightarrow> Inr (Some prev))) of
             Inl e \<Rightarrow> Inl e
           | Inr prev \<Rightarrow>
               (let (d1, ids1, ts1) =
                      (if map_of tree_nodes_dict (title pip) = None then
                         (tree_nodes_dict @
                            [(title pip,
                              \<lparr>node_plugin_id = plugin_id pip,
                               node_previous = map_option title prev,
                               node_title = title pip,
                               plugin_parameter_defaults = []\<rparr>)],
                          id_to_title(pip_id pip \<mapsto> title pip),
                          is_ts_dict(title pip \<mapsto> plugin_meta_type pip = ''ts''))
                       else (tree_nodes_dict, id_to_title, is_ts_dict));
                    entry = (plugin_param_name default_param, dp_value default_param)
                in collect_nodes tbl rest
                     (dict_update (title pip)
                        (\<lambda>n. n\<lparr>plugin_parameter_defaults := plugin_parameter_defaults n @ [entry]\<rparr>)
                        d1,
                      ids1, ts1))))"

text \<open>\<open>[id_to_title[int(pip_id)] for pip_id in default.split(',')]\<close>.\<close>

fun parent_titles_of :: "(int \<rightharpoonup> string) \<Rightarrow> string list \<Rightarrow> error + string list" where
  "parent_titles_of id_to_title [] = Inr []"
| "parent_titles_of id_to_title (id_text # rest) =
     (case py_int id_text of
        Inl e \<Rightarrow> Inl e
      | Inr i \<Rightarrow>
          (case id_to_title i of
             None \<Rightarrow> Inl KeyError
           | Some t \<Rightarrow>
               (case parent_titles_of id_to_title rest of
                  Inl e \<Rightarrow> Inl e
                | Inr ts \<Rightarrow> Inr (t # ts))))"

text \<open>
  The loop over the defaults of a \<open>ts\<close> piping: the first default named
  \<open>plugininstances\<close> is rewritten if it is true, and ends the loop; a true value that is
  not a string has no \<open>split\<close>.
\<close>

fun rewrite_ts ::
  "(int \<rightharpoonup> string) \<Rightarrow> (string \<times> pyvalue) list \<Rightarrow> error + (string \<times> pyvalue) list" where
  "rewrite_ts id_to_title [] = Inr []"
| "rewrite_ts id_to_title ((name, dflt) # rest) =
     (if name = ''plugininstances'' then
        (if truthy dflt then
           (case dflt of
              PStr s \<Rightarrow>
                (case parent_titles_of id_to_title (split_on (CHR '','') s) of
                   Inl e \<Rightarrow> Inl e
                 | Inr parent_titles \<Rightarrow>
                     Inr ((name, PStr (join_with '','' parent_titles)) # rest))
            | _ \<Rightarrow> Inl AttributeError)
         else Inr ((name, dflt) # rest))
      else (case rewrite_ts id_to_title rest of
              Inl e \<Rightarrow> Inl e
            | Inr rest' \<Rightarrow> Inr ((name, dflt) # rest')))"

text \<open>
  The second loop, over the titles: it rewrites the \<open>ts\<close> defaults in
  \<open>tree_nodes_dict\<close> and fills \<open>tree\<close>, the child titles of each title (the key \<open>None\<close>
  is the \<open>previous\<close> of a piping without one).
\<close>

fun build_title_tree ::
  "(int \<rightharpoonup> string) \<Rightarrow> (string \<rightharpoonup> bool) \<Rightarrow> string list \<Rightarrow>
   nodes_dict \<times> (string option \<rightharpoonup> string list) \<Rightarrow>
   error + nodes_dict \<times> (string option \<rightharpoonup> string list)" where
  "build_title_tree id_to_title is_ts_dict [] acc = Inr acc"
| "build_title_tree id_to_title is_ts_dict (t # rest) (tree_nodes_dict, tree) =
     (case is_ts_dict t of
        None \<Rightarrow> Inl KeyError
      | Some is_ts \<Rightarrow>
          (case map_of tree_nodes_dict t of
             None \<Rightarrow> Inl KeyError
           | Some node \<Rightarrow>
               (case (if is_ts then rewrite_ts id_to_title (plugin_parameter_defaults node)
                      else Inr (plugin_parameter_defaults node)) of
                  Inl e \<Rightarrow> Inl e
                | Inr defaults \<Rightarrow>
                    (let d1 = dict_update t (\<lambda>n. n\<lparr>plugin_parameter_defaults := defaults\<rparr>)
                                tree_nodes_dict;
                         tree1 =
                           (if Some t \<notin> dom tree then
                              (let tree0 = tree(Some t \<mapsto> []);
                                   prev_title = node_previous node
                               in case tree0 prev_title of
                                    Some children \<Rightarrow> tree0(prev_title \<mapsto> children @ [t])
                                  | None \<Rightarrow> tree0(prev_title \<mapsto> [t]))
                            else tree)
                     in build_title_tree id_to_title is_ts_dict rest (d1, tree1)))))"

text \<open>
  The breadth-first loop: \<open>popleft\<close> takes the head of the queue, \<open>extend\<close> appends.  The
  loop has no bound of its own, so it is a partial function.
\<close>

partial_function (option) breadth_first ::
  "nodes_dict \<Rightarrow> (string option \<rightharpoonup> string list) \<Rightarrow> string list \<Rightarrow> plugin_tree_node list \<Rightarrow>
     (error + plugin_tree_node list) option" where
  "breadth_first tree_nodes_dict tree queue plugin_tree =
     (if length queue \<noteq> 0 then
        (case map_of tree_nodes_dict (hd queue) of
           None \<Rightarrow> Some (Inl KeyError)
         | Some node \<Rightarrow>
             (case tree (Some (hd queue)) of
                None \<Rightarrow> Some (Inl KeyError)
              | Some children \<Rightarrow>
                  breadth_first tree_nodes_dict tree (tl queue @ children)
                    (plugin_tree @ [node])))
      else Some (Inr plugin_tree))"

declare breadth_first.simps [code]

definition get_plugin_tree :: "pipeline \<Rightarrow> (error + plugin_tree_node list) option" where
  "get_plugin_tree self =
     (case collect_nodes (plugin_pipings self) (get_default_parameters self)
             ([], Map.empty, Map.empty) of
        Inl e \<Rightarrow> Some (Inl e)
      | Inr (tree_nodes_dict, id_to_title, is_ts_dict) \<Rightarrow>
          (case filter (\<lambda>t. map_option node_previous (map_of tree_nodes_dict t) = Some None)
                  (map fst tree_nodes_dict) of
             [] \<Rightarrow> Some (Inl IndexError)
           | root_title # others \<Rightarrow>
               (case build_title_tree id_to_title is_ts_dict (map fst tree_nodes_dict)
                       (tree_nodes_dict, [Some root_title \<mapsto> []]) of
                  Inl e \<Rightarrow> Some (Inl e)
                | Inr (nodes, tree) \<Rightarrow>
                    (case (map_of nodes root_title, tree (Some root_title)) of
                       (Some root_node, Some children) \<Rightarrow>
                         breadth_first nodes tree children [root_node]
                     | _ \<Rightarrow> Some (Inl KeyError)))))"

subsection \<open>Example pipelines\<close>

text \<open>A chain of three pipings: \<open>root\<close>, then \<open>a\<close>, then \<open>b\<close>.\<close>

definition pip_root :: plugin_piping where
  "pip_root = \<lparr>pip_id = 1, title = ''root'', plugin_id = 10, plugin_meta_type = ''fs'',
     pip_previous = None\<rparr>"

definition pip_a :: plugin_piping where
  "pip_a = \<lparr>pip_id = 2, title = ''a'', plugin_id = 11, plugin_meta_type = ''ds'',
     pip_previous = Some 1\<rparr>"

definition pip_b :: plugin_piping where
  "pip_b = \<lparr>pip_id = 3, title = ''b'', plugin_id = 12, plugin_meta_type = ''ds'',
     pip_previous = Some 2\<rparr>"

text \<open>
  The chain as a pipeline: \<open>root\<close> and \<open>b\<close> have one string parameter each, \<open>a\<close> has one
  integer parameter.
\<close>

definition chain_pipeline :: pipeline where
  "chain_pipeline =
     \<lparr>plugin_pipings = [pip_root, pip_a, pip_b],
      string_defaults =
        [\<lparr>plugin_piping = 1, plugin_param_name = ''dir'', dp_value = PStr ''/in''\<rparr>,
         \<lparr>plugin_piping = 3, plugin_param_name = ''prefix'', dp_value = PStr ''out''\<rparr>],
      integer_defaults =
        [\<lparr>plugin_piping = 2, plugin_param_name = ''sleepLength'', dp_value = PInt 5\<rparr>],
      float_defaults = [],
      boolean_defaults = []\<rparr>"

text \<open>The same chain where all three parameters are strings, stored root first.\<close>

definition chain_pipeline_strings :: pipeline where
  "chain_pipeline_strings =
     \<lparr>plugin_pipings = [pip_root, pip_a, pip_b],
      string_defaults =
        [\<lparr>plugin_piping = 1, plugin_param_name = ''dir'', dp_value = PStr ''/in''\<rparr>,
         \<lparr>plugin_piping = 2, plugin_param_name = ''sleepLength'', dp_value = PStr ''5''\<rparr>,
         \<lparr>plugin_piping = 3, plugin_param_name = ''prefix'', dp_value = PStr ''out''\<rparr>],
      integer_defaults = [],
      float_defaults = [],
      boolean_defaults = []\<rparr>"


section \<open>Verification: the storage manager\<close>

lemma range5: "[0..<5] = [0, 1, 2, 3, 4::nat]"
  by (simp add: upt_rec)

lemma issue_script:
  "script m = oc # rest \<Longrightarrow>
   issue r m = (oc, m\<lparr>script := rest, requests := requests m @ [r]\<rparr>)"
  by (simp add: issue_def)

subsection \<open>The retry loop of \<open>obj_exists\<close>\<close>

text \<open>
  A run of failures other than 404 that does not reach the last index costs one sleep
  and one request each and leaves the loop at the next index.
\<close>

lemma obj_exists_attempts_failures:
  "script m = map Failed sts @ tail \<Longrightarrow> 404 \<notin> set sts \<Longrightarrow> length sts \<le> length idx \<Longrightarrow>
   4 \<notin> set (take (length sts) idx) \<Longrightarrow>
   obj_exists_attempts idx p m =
   obj_exists_attempts (drop (length sts) idx) p
     (m\<lparr>script := tail, sleeps := sleeps m + length sts,
        requests := requests m @ replicate (length sts) (HeadObject p)\<rparr>)"
proof (induction sts arbitrary: idx m)
  case Nil
  then have "m\<lparr>script := tail\<rparr> = m" by simp
  then show ?case by simp
next
  case (Cons s sts)
  then obtain i rest where idx: "idx = i # rest" by (cases idx) auto
  let ?m1 = "sleep (m\<lparr>script := map Failed sts @ tail, requests := requests m @ [HeadObject p]\<rparr>)"
  have step: "obj_exists_attempts idx p m = obj_exists_attempts rest p ?m1"
    using Cons.prems by (simp add: idx conn_head_object_def issue_script)
  have "obj_exists_attempts rest p ?m1 =
        obj_exists_attempts (drop (length sts) rest) p
          (?m1\<lparr>script := tail, sleeps := sleeps ?m1 + length sts,
             requests := requests ?m1 @ replicate (length sts) (HeadObject p)\<rparr>)"
    using Cons.prems by (intro Cons.IH) (auto simp: idx sleep_def)
  then show ?case
    unfolding step by (simp add: idx sleep_def)
qed

lemma get_connection_cached: "conn_cached m \<Longrightarrow> get_connection m = (Inr True, m)"
  by (simp add: get_connection_def)

lemma obj_exists_connected:
  "get_connection m0 = (Inr True, m) \<Longrightarrow>
   obj_exists p m0 = obj_exists_attempts [0, 1, 2, 3, 4] p m"
  by (simp add: obj_exists_def range5)

lemma attempts_index:
  assumes "k \<le> 4"
  shows "4 \<notin> set (take k [0, 1, 2, 3, 4::nat])" and "\<exists>r. drop k [0, 1, 2, 3, 4::nat] = k # r"
proof -
  from assms have k: "k = 0 \<or> k = 1 \<or> k = 2 \<or> k = 3 \<or> k = 4" by arith
  then show "4 \<notin> set (take k [0, 1, 2, 3, 4::nat])"
    by (elim disjE) (simp_all add: eval_nat_numeral)
  from k show "\<exists>r. drop k [0, 1, 2, 3, 4::nat] = k # r"
    by (elim disjE) (simp_all add: eval_nat_numeral)
qed

lemma obj_exists_attempts_served:
  "script m = Served # rest \<Longrightarrow>
   obj_exists_attempts (i # r) p m =
     (Inr (Some (p \<in> fst ` set (objects m))),
      m\<lparr>script := rest, requests := requests m @ [HeadObject p]\<rparr>)"
  by (simp add: conn_head_object_def issue_def)

lemma obj_exists_attempts_not_found:
  "script m = Failed 404 # rest \<Longrightarrow>
   obj_exists_attempts (i # r) p m =
     (Inr (Some False), m\<lparr>script := rest, requests := requests m @ [HeadObject p]\<rparr>)"
  by (simp add: conn_head_object_def issue_def)

lemma obj_exists_attempts_last:
  "script m = Failed e # rest \<Longrightarrow> e \<noteq> 404 \<Longrightarrow>
   obj_exists_attempts (4 # r) p m =
     (Inl (ClientException e), m\<lparr>script := rest, requests := requests m @ [HeadObject p]\<rparr>)"
  by (simp add: conn_head_object_def issue_def)

lemma obj_exists_not_found:
  assumes "script m = Failed 404 # rest"
  shows "obj_exists_attempts [0, 1, 2, 3, 4] p m =
       (Inr (Some False), m\<lparr>script := rest, requests := requests m @ [HeadObject p]\<rparr>)"
  by (rule obj_exists_attempts_not_found[OF assms])

lemma obj_exists_after_failures:
  assumes "script m = map Failed sts @ Served # rest" "404 \<notin> set sts" "length sts \<le> 4"
  shows "obj_exists_attempts [0, 1, 2, 3, 4] p m =
       (Inr (Some (p \<in> fst ` set (objects m))),
        m\<lparr>script := rest, sleeps := sleeps m + length sts,
          requests := requests m @ replicate (Suc (length sts)) (HeadObject p)\<rparr>)"
proof -
  let ?m = "m\<lparr>script := Served # rest, sleeps := sleeps m + length sts,
        requests := requests m @ replicate (length sts) (HeadObject p)\<rparr>"
  obtain r where d: "drop (length sts) [0, 1, 2, 3, 4::nat] = length sts # r"
    using attempts_index(2)[OF assms(3)] by blast
  have "obj_exists_attempts [0, 1, 2, 3, 4] p m =
        obj_exists_attempts (drop (length sts) [0, 1, 2, 3, 4]) p ?m"
    by (rule obj_exists_attempts_failures[OF assms(1) assms(2) _ attempts_index(1)[OF assms(3)]])
       (use assms(3) in simp)
  also have "\<dots> = (Inr (Some (p \<in> fst ` set (objects ?m))),
        ?m\<lparr>script := rest, requests := requests ?m @ [HeadObject p]\<rparr>)"
    unfolding d by (rule obj_exists_attempts_served) simp
  finally show ?thesis by (simp add: replicate_append_same)
qed

lemma obj_exists_gives_up:
  assumes "script m = map Failed sts @ rest" "404 \<notin> set sts" "length sts = 5"
  shows "obj_exists_attempts [0, 1, 2, 3, 4] p m =
       (Inl (ClientException (sts ! 4)),
        m\<lparr>script := rest, sleeps := sleeps m + 4,
          requests := requests m @ replicate 5 (HeadObject p)\<rparr>)"
proof -
  from assms(3) obtain a b c d e where sts: "sts = [a, b, c, d, e]"
    by (auto simp: length_Suc_conv eval_nat_numeral)
  have s: "script m = map Failed [a, b, c, d] @ Failed e # rest" using assms(1) sts by simp
  have n: "404 \<notin> set [a, b, c, d]" "e \<noteq> 404" using assms(2) sts by auto
  let ?m = "m\<lparr>script := Failed e # rest, sleeps := sleeps m + length [a, b, c, d],
        requests := requests m @ replicate (length [a, b, c, d]) (HeadObject p)\<rparr>"
  have "obj_exists_attempts [0, 1, 2, 3, 4] p m =
        obj_exists_attempts (drop (length [a, b, c, d]) [0, 1, 2, 3, 4]) p ?m"
    by (rule obj_exists_attempts_failures[OF s n(1)]) simp_all
  also have "drop (length [a, b, c, d]) [0, 1, 2, 3, 4::nat] = [4]" by simp
  also have "obj_exists_attempts [4] p ?m = (Inl (ClientException e),
        ?m\<lparr>script := rest, requests := requests ?m @ [HeadObject p]\<rparr>)"
    by (rule obj_exists_attempts_last) (use n(2) in simp_all)
  finally show ?thesis by (simp add: sts eval_nat_numeral)
qed

text \<open>
  Claim C7.  Let \<open>m\<close> be the state in which \<open>obj_exists\<close> holds its connection (cached
  from before, or just made).  A 404 response is answered at once: \<open>False\<close>, one request,
  no sleep.  After \<open>k \<le> 4\<close> failures with a status other than 404 followed by a served
  request \<open>obj_exists\<close> returns whether the object is in the container, after exactly \<open>k\<close>
  sleeps and \<open>k + 1\<close> requests (so four failures cost four sleeps).  After five such
  failures it raises the fifth \<open>ClientException\<close>, having slept four times and sent five
  requests.
\<close>

theorem obj_exists_retry_policy:
  assumes "get_connection m0 = (Inr True, m)"
  shows
    "(script m = Failed 404 # rest \<longrightarrow>
        obj_exists p m0 =
          (Inr (Some False), m\<lparr>script := rest, requests := requests m @ [HeadObject p]\<rparr>)) \<and>
     (script m = map Failed sts @ Served # rest \<and> 404 \<notin> set sts \<and> length sts \<le> 4 \<longrightarrow>
        obj_exists p m0 =
          (Inr (Some (p \<in> fst ` set (objects m))),
           m\<lparr>script := rest, sleeps := sleeps m + length sts,
             requests := requests m @ replicate (Suc (length sts)) (HeadObject p)\<rparr>)) \<and>
     (script m = map Failed sts @ rest \<and> 404 \<notin> set sts \<and> length sts = 5 \<longrightarrow>
        obj_exists p m0 =
          (Inl (ClientException (sts ! 4)),
           m\<lparr>script := rest, sleeps := sleeps m + 4,
             requests := requests m @ replicate 5 (HeadObject p)\<rparr>))"
  unfolding obj_exists_connected[OF assms]
  using obj_exists_not_found obj_exists_after_failures obj_exists_gives_up by blast

theorem obj_exists_retry_policy_witness:
  "obj_exists ''PIPELINES/zzz'' (scripted_store [Failed 404, Served]) =
     (Inr (Some False),
      scripted_store [Served]\<lparr>requests := [HeadObject ''PIPELINES/zzz'']\<rparr>) \<and>
   obj_exists ''PIPELINES/zzz'' (example_store\<lparr>script := [Served, Failed 404]\<rparr>) =
     (Inr (Some False),
      example_store\<lparr>conn_cached := True,
        requests := [Connect, HeadObject ''PIPELINES/zzz'']\<rparr>) \<and>
   obj_exists ''PIPELINES/a,b/c, .txt''
       (scripted_store [Failed 500, Failed 503, Failed 500, Failed 502, Served]) =
     (Inr (Some True),
      scripted_store []\<lparr>sleeps := 4,
        requests := replicate 5 (HeadObject ''PIPELINES/a,b/c, .txt'')\<rparr>) \<and>
   obj_exists ''PIPELINES/a,b/c, .txt''
       (scripted_store [Failed 500, Failed 503, Failed 500, Failed 502, Failed 504, Served]) =
     (Inl (ClientException 504),
      scripted_store [Served]\<lparr>sleeps := 4,
        requests := replicate 5 (HeadObject ''PIPELINES/a,b/c, .txt'')\<rparr>)"
proof -
  have c: "get_connection (scripted_store oc) = (Inr True, scripted_store oc)" for oc
    by (simp add: scripted_store_def get_connection_def)
  have e: "get_connection (example_store\<lparr>script := [Served, Failed 404]\<rparr>) =
      (Inr True,
       example_store\<lparr>conn_cached := True, script := [Failed 404], requests := [Connect]\<rparr>)"
    by (simp add: example_store_def get_connection_def range5 issue_def)
  have a: "obj_exists ''PIPELINES/zzz'' (scripted_store [Failed 404, Served]) =
     (Inr (Some False),
      scripted_store [Served]\<lparr>requests := [HeadObject ''PIPELINES/zzz'']\<rparr>)"
    using obj_exists_retry_policy[OF c, where rest = "[Served]" and p = "''PIPELINES/zzz''"
        and sts = "[]"]
    by (simp add: scripted_store_def example_store_def)
  have a': "obj_exists ''PIPELINES/zzz'' (example_store\<lparr>script := [Served, Failed 404]\<rparr>) =
     (Inr (Some False),
      example_store\<lparr>conn_cached := True,
        requests := [Connect, HeadObject ''PIPELINES/zzz'']\<rparr>)"
    using obj_exists_retry_policy[OF e, where rest = "[]" and p = "''PIPELINES/zzz''"
        and sts = "[]"]
    by (simp add: example_store_def)
  have b: "obj_exists ''PIPELINES/a,b/c, .txt''
       (scripted_store [Failed 500, Failed 503, Failed 500, Failed 502, Served]) =
     (Inr (Some True),
      scripted_store []\<lparr>sleeps := 4,
        requests := replicate 5 (HeadObject ''PIPELINES/a,b/c, .txt'')\<rparr>)"
    using obj_exists_retry_policy[OF c, where rest = "[]"
        and p = "''PIPELINES/a,b/c, .txt''" and sts = "[500, 503, 500, 502]"]
    by (simp add: scripted_store_def example_store_def eval_nat_numeral)
  have d: "obj_exists ''PIPELINES/a,b/c, .txt''
       (scripted_store [Failed 500, Failed 503, Failed 500, Failed 502, Failed 504, Served]) =
     (Inl (ClientException 504),
      scripted_store [Served]\<lparr>sleeps := 4,
        requests := replicate 5 (HeadObject ''PIPELINES/a,b/c, .txt'')\<rparr>)"
    using obj_exists_retry_policy[OF c, where rest = "[Served]"
        and p = "''PIPELINES/a,b/c, .txt''" and sts = "[500, 503, 500, 502, 504]"]
    by (simp add: scripted_store_def example_store_def eval_nat_numeral)
  from a a' b d show ?thesis by blast
qed

subsection \<open>Listing changes nothing\<close>

lemma quiet_refl: "quiet m m" by (simp add: quiet_def)

lemma issue_quiet: "\<not> mutating r \<Longrightarrow> issue r m = (oc, m') \<Longrightarrow> quiet m m'"
  by (auto simp: issue_def quiet_def split: list.splits)

lemma quiet_trans: "quiet a b \<Longrightarrow> quiet b c \<Longrightarrow> quiet a c" by (simp add: quiet_def)

lemma quiet_sleep: "quiet m (sleep m)" by (simp add: quiet_def sleep_def)

lemma get_connection_attempts_quiet:
  "get_connection_attempts idx m = (r, m') \<Longrightarrow> quiet m m'"
proof (induction idx arbitrary: m)
  case Nil
  then show ?case by (simp add: quiet_refl)
next
  case (Cons i idx)
  obtain oc m1 where i: "issue Connect m = (oc, m1)" by (cases "issue Connect m")
  then have q: "quiet m m1" by (intro issue_quiet) (auto simp: mutating_def)
  show ?case
  proof (cases oc)
    case Served
    with Cons.prems i q show ?thesis by (auto simp: quiet_def)
  next
    case (Failed st)
    show ?thesis
    proof (cases "i = 4")
      case True
      with Cons.prems i q Failed show ?thesis by auto
    next
      case False
      with Cons.prems i Failed have "get_connection_attempts idx (sleep m1) = (r, m')" by simp
      then have "quiet (sleep m1) m'" by (rule Cons.IH)
      with q quiet_sleep[of m1] show ?thesis by (blast intro: quiet_trans)
    qed
  qed
qed

lemma get_connection_quiet: "get_connection m = (r, m') \<Longrightarrow> quiet m m'"
  by (auto simp: get_connection_def quiet_refl dest: get_connection_attempts_quiet split: if_splits)

lemma conn_get_container_quiet: "conn_get_container pre full m = (r, m') \<Longrightarrow> quiet m m'"
proof -
  assume a: "conn_get_container pre full m = (r, m')"
  obtain oc m1 where i: "issue (GetContainer pre full) m = (oc, m1)"
    by (cases "issue (GetContainer pre full) m")
  then have "quiet m m1" by (intro issue_quiet) (auto simp: mutating_def)
  moreover from a i have "m' = m1" by (auto simp: conn_get_container_def split: outcome.splits)
  ultimately show ?thesis by simp
qed

lemma ls_attempts_quiet:
  "ls_attempts idx path full m = (r, m') \<Longrightarrow> quiet m m'"
proof (induction idx arbitrary: m)
  case Nil
  then show ?case by (simp add: quiet_refl)
next
  case (Cons i idx)
  obtain res m1 where c: "conn_get_container path full m = (res, m1)"
    by (cases "conn_get_container path full m")
  then have q: "quiet m m1" by (rule conn_get_container_quiet)
  show ?case
  proof (cases res)
    case (Inr names)
    with Cons.prems c q show ?thesis by auto
  next
    case (Inl st)
    show ?thesis
    proof (cases "i = 4")
      case True
      with Cons.prems c q Inl show ?thesis by auto
    next
      case False
      with Cons.prems c Inl have "ls_attempts idx path full (sleep m1) = (r, m')" by simp
      then have "quiet (sleep m1) m'" by (rule Cons.IH)
      with q quiet_sleep[of m1] show ?thesis by (blast intro: quiet_trans)
    qed
  qed
qed

lemma ls_quiet: "ls path m = (r, m') \<Longrightarrow> quiet m m'"
  by (auto simp: ls_def ls_inner_def quiet_refl split: if_splits prod.splits sum.splits
      dest: get_connection_quiet ls_attempts_quiet intro: quiet_trans)

text \<open>
  Claim C9.  When the exhaustive listing of \<open>path\<close> is the one key \<open>path\<close> itself,
  \<open>sanitize_obj_names\<close> returns the empty dictionary in the state the listing left: the
  objects are those of the start and no copy or delete request was sent, whatever commas
  or blank components the key holds.
\<close>

theorem sanitize_single_object_untouched:
  assumes "ls path m = (Inr [path], m')"
  shows "sanitize_obj_names path m = (Inr Map.empty, m') \<and> objects m' = objects m \<and>
         filter mutating (requests m') = filter mutating (requests m)"
proof -
  have "sanitize_obj_names path m = (Inr Map.empty, m')"
    using assms by (simp add: sanitize_obj_names_def)
  moreover have "quiet m m'" using assms by (rule ls_quiet)
  ultimately show ?thesis by (simp add: quiet_def)
qed


theorem sanitize_single_object_untouched_witness:
  "ls ''PIPELINES/ ,,/a,b.txt'' lone_store =
     (Inr [''PIPELINES/ ,,/a,b.txt''],
      lone_store\<lparr>conn_cached := True,
        requests := [Connect, GetContainer ''PIPELINES/ ,,/a,b.txt'' True]\<rparr>) \<and>
   sanitize_obj_names ''PIPELINES/ ,,/a,b.txt'' lone_store =
     (Inr Map.empty,
      lone_store\<lparr>conn_cached := True,
        requests := [Connect, GetContainer ''PIPELINES/ ,,/a,b.txt'' True]\<rparr>)"
proof -
  have l: "ls ''PIPELINES/ ,,/a,b.txt'' lone_store =
     (Inr [''PIPELINES/ ,,/a,b.txt''],
      lone_store\<lparr>conn_cached := True,
        requests := [Connect, GetContainer ''PIPELINES/ ,,/a,b.txt'' True]\<rparr>)"
    by (simp add: lone_store_def ls_def ls_inner_def get_connection_def range5 issue_def
        conn_get_container_def listing_def)
  from sanitize_single_object_untouched[OF l] l show ?thesis by simp
qed

subsection \<open>Sanitization\<close>




lemma blank_leaf_eval:
  "sanitize_obj_names ''PIPELINES'' blank_leaf_store =
     (Inr [''PIPELINES/a,b/ ,, '' \<mapsto> []],
      blank_leaf_store\<lparr>objects := [],
        requests := [GetContainer ''PIPELINES'' True, DeleteObject ''PIPELINES/a,b/ ,, '']\<rparr>)"
  by (simp add: blank_leaf_store_def sanitize_obj_names_def ls_def ls_inner_def get_connection_def issue_def
  conn_get_container_def listing_def Path_def path_root_def path_name_def remove_commas_def
  strip_def isspace_def relative_to_def Path_of_parts_def path_join_def path_str_def
  copy_obj_def delete_obj_def os_path_join_def range5 lstrip_slash_def conn_copy_object_def
  conn_delete_object_def put_object_def sleep_def Let_def)






section \<open>Verification: plugin instances\<close>

subsection \<open>Walks to the root\<close>

lemma lineage_hd: "lineage db c chain \<Longrightarrow> chain \<noteq> [] \<and> hd chain = c"
  by (induction rule: lineage.induct) auto

lemma root_walk_lineage:
  "lineage db c chain \<Longrightarrow> root_walk db c = Some (Inr (last chain)) \<and> plugin_type (last chain) = ''fs''"
proof (induction rule: lineage.induct)
  case (lineage_root r db)
  then show ?case by (simp add: root_walk.simps)
next
  case (lineage_step c p db c' anc)
  moreover from lineage_step have "anc \<noteq> []" by (simp add: lineage_hd)
  ultimately show ?case by (subst root_walk.simps) simp
qed

lemma root_walk_broken: "broken db c \<Longrightarrow> root_walk db c = Some (Inl AttributeError)"
proof (induction rule: broken.induct)
  case (broken_here c db)
  then show ?case by (simp add: root_walk.simps)
next
  case (broken_step c p db c')
  then show ?case by (subst root_walk.simps) simp
qed


lemma root_walk_Some_leaves:
  assumes "root_walk db c = Some y"
  shows "endless db S \<longrightarrow> c \<notin> S"
proof (rule root_walk.raw_induct[where P="\<lambda>db c y. endless db S \<longrightarrow> c \<notin> S", OF _ assms])
  fix walk :: "instances \<Rightarrow> plugin_instance \<Rightarrow> (error + plugin_instance) option"
    and db :: instances and current :: plugin_instance and y
  assume IH: "\<And>db c y. walk db c = Some y \<Longrightarrow> endless db S \<longrightarrow> c \<notin> S"
    and body: "(if plugin_type current \<noteq> ''fs''
      then case previous current of None \<Rightarrow> Some (Inl AttributeError)
           | Some p \<Rightarrow>
               case get_instance db p of None \<Rightarrow> Some (Inl DoesNotExist)
               | Some c \<Rightarrow> walk db c
      else Some (Inr current)) = Some y"
  show "endless db S \<longrightarrow> current \<notin> S"
  proof (intro impI notI)
    assume e: "endless db S" and "current \<in> S"
    then obtain p c' where c: "plugin_type current \<noteq> ''fs''" "previous current = Some p"
      "get_instance db p = Some c'" "c' \<in> S"
      unfolding endless_def by blast
    with body have "walk db c' = Some y" by simp
    from IH[OF this] e c(4) show False by blast
  qed
qed

lemma root_walk_endless:
  assumes "endless db S" "c \<in> S"
  shows "root_walk db c = None"
proof (cases "root_walk db c")
  case None
  then show ?thesis .
next
  case (Some y)
  from root_walk_Some_leaves[OF this] assms show ?thesis by blast
qed

lemma output_path_walk_lineage:
  "lineage db c chain \<Longrightarrow>
   output_path_walk db c path =
     Some (Inr (last chain, concat (map segment (rev (tl chain))) @ path))"
proof (induction arbitrary: path rule: lineage.induct)
  case (lineage_root r db)
  then show ?case by (simp add: output_path_walk.simps)
next
  case (lineage_step c p db c' anc)
  from lineage_step.hyps(4) have anc: "anc \<noteq> []" "hd anc = c'" by (simp_all add: lineage_hd)
  then have r: "rev anc = rev (tl anc) @ [c']" by (cases anc) auto
  have "output_path_walk db c path = output_path_walk db c' (segment c' @ path)"
    using lineage_step.hyps(1-3) by (subst output_path_walk.simps) simp
  also have "\<dots> = Some (Inr (last anc, concat (map segment (rev (tl anc))) @ segment c' @ path))"
    by (rule lineage_step.IH)
  finally show ?case using anc by (simp add: r)
qed

lemma get_output_path_lineage:
  assumes "lineage db self chain" "feed (last chain) = Some f"
  shows "get_output_path db self =
     Some (Inr (owner_username self @ ''/feed_'' @ str_int f @
                concat (map segment (rev chain)) @ ''/data''))"
proof -
  from assms(1) have c: "chain = self # tl chain"
    using lineage_hd[of db self chain] by (cases chain) auto
  have "rev chain = rev (tl chain) @ [self]" by (subst c) simp
  then show ?thesis
    using assms(2) by (simp add: get_output_path_def output_path_walk_lineage[OF assms(1)])
qed

text \<open>
  Claim C1.  For a node of a well-formed lineage whose rows all belong to feed \<open>f\<close>,
  \<open>get_output_path\<close> returns the owner's username, \<open>/feed_\<close> and the feed's key, then
  one segment \<open>/<plugin name>_<id>\<close> per row of the lineage from the root down to the
  node itself, then \<open>/data\<close>.  The result is a function of the table and the node alone,
  so two calls on the same table return the same string.
\<close>

theorem get_output_path_well_formed:
  assumes "lineage db self chain" "\<forall>c \<in> set chain. feed c = Some f"
  shows "get_output_path db self =
     Some (Inr (owner_username self @ ''/feed_'' @ str_int f @
                concat (map segment (rev chain)) @ ''/data''))"
proof -
  from assms(1) have "chain \<noteq> []" by (simp add: lineage_hd)
  with assms(2) have "feed (last chain) = Some f" by simp
  with assms(1) show ?thesis by (rule get_output_path_lineage)
qed

lemma lineage_example: "lineage lineage_db inst_leaf [inst_leaf, inst_mid, inst_root]"
proof -
  have r: "lineage lineage_db inst_root [inst_root]"
    by (rule lineage_root) (simp_all add: inst_root_def)
  have m: "lineage lineage_db inst_mid [inst_mid, inst_root]"
    by (rule lineage_step[where p = 1, OF _ _ _ r])
       (simp_all add: lineage_db_def inst_leaf_def inst_mid_def inst_root_def get_instance_def)
  show ?thesis
    by (rule lineage_step[where p = 2, OF _ _ _ m])
       (simp_all add: lineage_db_def inst_leaf_def inst_mid_def inst_root_def get_instance_def)
qed

lemma str_int_examples: "str_int 1 = ''1''" "str_int 2 = ''2''" "str_int 13 = ''13''" "str_int 7 = ''7''"
  by (simp_all add: str_int_def digits.simps)

theorem get_output_path_well_formed_witness:
  "get_output_path lineage_db inst_leaf =
     Some (Inr ''alice/feed_7/pl-dircopy_1/pl-med2img_2/pl-topo_13/data'')"
proof -
  have f: "\<forall>c \<in> set [inst_leaf, inst_mid, inst_root]. feed c = Some 7"
    by (simp add: inst_leaf_def inst_mid_def inst_root_def)
  from get_output_path_well_formed[OF lineage_example f] show ?thesis
    by (simp add: segment_def str_int_examples inst_leaf_def inst_mid_def inst_root_def)
qed


text \<open>
  Claim C2, as the code has it.  In a well-formed lineage \<open>get_root_instance\<close> returns
  the root, a row of type \<open>fs\<close>.  On a chain that reaches a null \<open>previous\<close> before any
  \<open>fs\<close> row it raises \<open>AttributeError\<close>.  On a chain that never ends (a cycle without an
  \<open>fs\<close> row) it does not return: the walk has no bound.
\<close>

theorem get_root_instance_cases:
  "(lineage db self chain \<longrightarrow>
      get_root_instance db self = Some (Inr (last chain)) \<and> plugin_type (last chain) = ''fs'') \<and>
   (broken db self \<longrightarrow> get_root_instance db self = Some (Inl AttributeError)) \<and>
   (endless db S \<and> self \<in> S \<longrightarrow> get_root_instance db self = None)"
  unfolding get_root_instance_def
  using root_walk_lineage root_walk_broken root_walk_endless by blast

lemma endless_example: "endless cycle_db {cycle_a, cycle_b}"
  by (simp add: endless_def cycle_db_def cycle_a_def cycle_b_def get_instance_def)

lemma broken_example: "broken orphan_db orphan_child"
proof -
  have t: "broken orphan_db orphan_top"
    by (rule broken_here) (simp_all add: orphan_top_def)
  show ?thesis
    by (rule broken_step[where p = 1, OF _ _ _ t])
       (simp_all add: orphan_db_def orphan_top_def orphan_child_def get_instance_def)
qed

theorem get_root_instance_cases_witness:
  "get_root_instance lineage_db inst_leaf = Some (Inr inst_root) \<and>
   plugin_type inst_root = ''fs'' \<and>
   get_root_instance orphan_db orphan_child = Some (Inl AttributeError) \<and>
   get_root_instance cycle_db cycle_b = None"
proof -
  have a: "get_root_instance lineage_db inst_leaf = Some (Inr inst_root) \<and>
      plugin_type inst_root = ''fs''"
    using get_root_instance_cases[of lineage_db inst_leaf "[inst_leaf, inst_mid, inst_root]"]
      lineage_example by simp
  have b: "get_root_instance orphan_db orphan_child = Some (Inl AttributeError)"
    using get_root_instance_cases[of orphan_db orphan_child] broken_example by blast
  have c: "get_root_instance cycle_db cycle_b = None"
    using get_root_instance_cases[of cycle_db cycle_b _ "{cycle_a, cycle_b}"] endless_example
    by simp
  from a b c show ?thesis by blast
qed

text \<open>
  On the two rows that name each other the walk from \<open>cycle_a\<close> never returns; no
  \<open>LineageCycleDetected\<close> is raised.
\<close>

theorem get_root_instance_cycle_counterexample:
  "get_root_instance cycle_db cycle_a = None"
  unfolding get_root_instance_def
  by (rule root_walk_endless[OF endless_example]) simp



subsection \<open>Saving an instance\<close>

lemma save_fs:
  assumes "feed self = None" "plugin_type self = ''fs''"
  shows "save db self =
     (Inr (self\<lparr>feed := Some (next_feed_id (feeds db))\<rparr>),
      \<lparr>instances = filter (\<lambda>r. inst_id r \<noteq> inst_id self) (instances db) @
           [self\<lparr>feed := Some (next_feed_id (feeds db))\<rparr>],
       feeds = feeds db @
           [\<lparr>feed_id = next_feed_id (feeds db), feed_name = plugin_name self,
             feed_owners = [owner_username self]\<rparr>]\<rparr>)"
  using assms by (simp add: save_def save_feed_def model_save_def Let_def)

lemma save_ds:
  assumes "feed self = None" "plugin_type self = ''ds''" "previous self = Some p"
    "get_instance (instances db) p = Some prev" "feed prev = Some f"
  shows "save db self =
     (Inr (self\<lparr>feed := Some f\<rparr>),
      db\<lparr>instances := filter (\<lambda>r. inst_id r \<noteq> inst_id self) (instances db) @
           [self\<lparr>feed := Some f\<rparr>]\<rparr>)"
  using assms by (simp add: save_def save_feed_def model_save_def Let_def)

lemma save_ds_orphan:
  assumes "feed self = None" "plugin_type self = ''ds''" "previous self = None"
  shows "save db self = (Inl AttributeError, db)"
  using assms by (simp add: save_def Let_def)

lemma save_other:
  assumes "feed self = None" "plugin_type self \<noteq> ''fs''" "plugin_type self \<noteq> ''ds''"
  shows "save db self = (Inl IntegrityError, db)"
  using assms by (simp add: save_def model_save_def Let_def)

lemma save_feeds_unchanged:
  assumes "feed self = None" "plugin_type self \<noteq> ''fs''"
  shows "feeds (snd (save db self)) = feeds db"
  using assms by (simp add: save_def model_save_def Let_def split: option.splits)

lemma save_feeds_iff:
  assumes "feed self = None"
  shows "feeds (snd (save db self)) \<noteq> feeds db \<longleftrightarrow> plugin_type self = ''fs''"
proof (cases "plugin_type self = ''fs''")
  case True
  from save_fs[OF assms True, of db] show ?thesis using True by simp
next
  case False
  from save_feeds_unchanged[OF assms False] False show ?thesis by simp
qed

text \<open>
  Claim C8.  For an instance saved without a feed: of type \<open>fs\<close>, a new feed named after
  the plugin and owned by the instance's owner is stored and assigned; of type \<open>ds\<close> with
  a parent, the parent's feed is assigned and no feed is stored; of any other type no feed
  is assigned and the save fails with \<open>IntegrityError\<close>, the database unchanged.  (Of
  type \<open>ds\<close> without a parent, reading the parent's feed raises \<open>AttributeError\<close>.)  The
  table of feeds changes exactly when the type is \<open>fs\<close>.
\<close>

theorem save_assigns_feed:
  assumes "feed self = None"
  shows
    "(plugin_type self = ''fs'' \<longrightarrow>
        save db self =
          (Inr (self\<lparr>feed := Some (next_feed_id (feeds db))\<rparr>),
           \<lparr>instances = filter (\<lambda>r. inst_id r \<noteq> inst_id self) (instances db) @
                [self\<lparr>feed := Some (next_feed_id (feeds db))\<rparr>],
            feeds = feeds db @
                [\<lparr>feed_id = next_feed_id (feeds db), feed_name = plugin_name self,
                  feed_owners = [owner_username self]\<rparr>]\<rparr>)) \<and>
     (plugin_type self = ''ds'' \<and> previous self = Some p \<and>
      get_instance (instances db) p = Some prev \<and> feed prev = Some f \<longrightarrow>
        save db self =
          (Inr (self\<lparr>feed := Some f\<rparr>),
           db\<lparr>instances := filter (\<lambda>r. inst_id r \<noteq> inst_id self) (instances db) @
                [self\<lparr>feed := Some f\<rparr>]\<rparr>)) \<and>
     (plugin_type self = ''ds'' \<and> previous self = None \<longrightarrow>
        save db self = (Inl AttributeError, db)) \<and>
     (plugin_type self \<noteq> ''fs'' \<and> plugin_type self \<noteq> ''ds'' \<longrightarrow>
        save db self = (Inl IntegrityError, db)) \<and>
     (feeds (snd (save db self)) \<noteq> feeds db \<longleftrightarrow> plugin_type self = ''fs'')"
  using save_fs[OF assms] save_ds[OF assms] save_ds_orphan[OF assms] save_other[OF assms]
    save_feeds_iff[OF assms]
  by blast

theorem save_assigns_feed_witness:
  "save example_db fresh_fs =
     (Inr (fresh_fs\<lparr>feed := Some 8\<rparr>),
      \<lparr>instances = lineage_db @ [fresh_fs\<lparr>feed := Some 8\<rparr>],
       feeds = [\<lparr>feed_id = 7, feed_name = ''pl-dircopy'', feed_owners = [''alice'']\<rparr>,
                \<lparr>feed_id = 8, feed_name = ''pl-dircopy'', feed_owners = [''bob'']\<rparr>]\<rparr>) \<and>
   save example_db fresh_ds =
     (Inr (fresh_ds\<lparr>feed := Some 7\<rparr>),
      example_db\<lparr>instances := lineage_db @ [fresh_ds\<lparr>feed := Some 7\<rparr>]\<rparr>) \<and>
   save example_db fresh_ts = (Inl IntegrityError, example_db)"
proof -
  have n: "feed fresh_fs = None" "feed fresh_ds = None" "feed fresh_ts = None"
    by (simp_all add: fresh_fs_def fresh_ds_def fresh_ts_def)
  have a: "save example_db fresh_fs =
     (Inr (fresh_fs\<lparr>feed := Some 8\<rparr>),
      \<lparr>instances = lineage_db @ [fresh_fs\<lparr>feed := Some 8\<rparr>],
       feeds = [\<lparr>feed_id = 7, feed_name = ''pl-dircopy'', feed_owners = [''alice'']\<rparr>,
                \<lparr>feed_id = 8, feed_name = ''pl-dircopy'', feed_owners = [''bob'']\<rparr>]\<rparr>)"
    using save_assigns_feed[OF n(1), of example_db]
    by (simp add: fresh_fs_def example_db_def next_feed_id_def lineage_db_def inst_leaf_def
        inst_mid_def inst_root_def)
  have b: "save example_db fresh_ds =
     (Inr (fresh_ds\<lparr>feed := Some 7\<rparr>),
      example_db\<lparr>instances := lineage_db @ [fresh_ds\<lparr>feed := Some 7\<rparr>]\<rparr>)"
    using save_assigns_feed[OF n(2), where db = example_db and p = 2 and prev = inst_mid and f = 7]
    by (simp add: fresh_ds_def example_db_def lineage_db_def inst_leaf_def
        inst_mid_def inst_root_def get_instance_def)
  have c: "save example_db fresh_ts = (Inl IntegrityError, example_db)"
    using save_assigns_feed[OF n(3), of example_db]
    by (simp add: fresh_ts_def)
  from a b c show ?thesis by blast
qed


subsection \<open>The descendants of an instance\<close>
























subsection \<open>Registering the output files\<close>

text \<open>
  While every listing holds no more objects than were reported, the loop goes on to its
  twentieth poll and keeps the last listing.
\<close>

lemma poll_never_enough:
  assumes "\<forall>k<20. \<exists>l. conn k p = Inr l \<and> int (length l) \<le> reported"
    and "int (length ol) \<le> reported" and "n < 20"
  shows "\<exists>l. conn 19 p = Inr l \<and> poll conn p reported ol n = Inr (l, 20)"
  using assms(2,3)
proof (induction "19 - n" arbitrary: n ol)
  case 0
  then have n: "n = 19" by simp
  have "\<exists>l. conn 19 p = Inr l \<and> int (length l) \<le> reported"
    using assms(1)[rule_format, of 19] by simp
  then obtain l where l: "conn 19 p = Inr l" "int (length l) \<le> reported" by blast
  have "poll conn p reported ol 19 = poll conn p reported l 20"
    using 0(2) l by (subst poll.simps) simp
  also have "\<dots> = Inr (l, 20)" by (subst poll.simps) simp
  finally show ?case using l n by simp
next
  case (Suc m)
  then have n: "n < 19" "m = 19 - Suc n" "Suc n < 20" by simp_all
  have "\<exists>l. conn n p = Inr l \<and> int (length l) \<le> reported"
    using assms(1)[rule_format, of n] Suc.prems(2) by simp
  then obtain l where l: "conn n p = Inr l" "int (length l) \<le> reported" by blast
  have "poll conn p reported ol n = poll conn p reported l (Suc n)"
    using Suc.prems l by (subst poll.simps) simp
  with Suc.hyps(1)[OF n(2) l(2) n(3)] show ?case by simp
qed


lemma root_output_path:
  "get_output_path lineage_db inst_root = Some (Inr ''alice/feed_7/pl-dircopy_1/data'')"
  by (simp add: get_output_path_def output_path_walk.simps inst_root_def segment_def
      str_int_def digits.simps)

lemma poll_two_files:
  "poll two_files p 2 [] 0 = Inr ([p @ ''/a.txt'', p @ ''/b.txt''], 20)"
  "poll two_files p 3 [] 0 = Inr ([p @ ''/a.txt'', p @ ''/b.txt''], 20)"
  "poll two_files p 1 [] 0 = Inr ([p @ ''/a.txt'', p @ ''/b.txt''], 1)"
  by (simp_all add: poll.simps two_files_def)

text \<open>
  Claim C3 at the input where two files were reported and each poll lists exactly those
  two: \<open>register_output_files\<close> registers both, and \<open>pollLoop\<close> is 20, not 1.  The guard
  of the loop is \<open>len(object_list) <= objectsReportedInSwift\<close>, so a listing that holds
  as many objects as were reported does not end the polling.  With three files reported
  the same listing also gives 20 polls and two files, without an error.
\<close>

theorem register_output_files_exact_count:
  "register_output_files lineage_db two_files inst_root (files_pushed 2) =
     Some (Inr (\<lparr>status = True,
                 l_object = [''alice/feed_7/pl-dircopy_1/data/a.txt'',
                             ''alice/feed_7/pl-dircopy_1/data/b.txt''],
                 total = 2, outputPath = ''alice/feed_7/pl-dircopy_1/data'', pollLoop = 20\<rparr>,
                [\<lparr>plugin_inst = 1, fname = ''alice/feed_7/pl-dircopy_1/data/a.txt''\<rparr>,
                 \<lparr>plugin_inst = 1, fname = ''alice/feed_7/pl-dircopy_1/data/b.txt''\<rparr>])) \<and>
   register_output_files lineage_db two_files inst_root (files_pushed 3) =
     Some (Inr (\<lparr>status = True,
                 l_object = [''alice/feed_7/pl-dircopy_1/data/a.txt'',
                             ''alice/feed_7/pl-dircopy_1/data/b.txt''],
                 total = 2, outputPath = ''alice/feed_7/pl-dircopy_1/data'', pollLoop = 20\<rparr>,
                [\<lparr>plugin_inst = 1, fname = ''alice/feed_7/pl-dircopy_1/data/a.txt''\<rparr>,
                 \<lparr>plugin_inst = 1, fname = ''alice/feed_7/pl-dircopy_1/data/b.txt''\<rparr>]))"
  unfolding register_output_files_def root_output_path
  by (simp add: files_pushed_def poll_two_files inst_root_def)

section \<open>Verification: pipelines\<close>

text \<open>
  Claim C4 at the chain \<open>root\<close>, \<open>a\<close>, \<open>b\<close>.  Listed parents first, \<open>get_pipings_tree\<close>
  registers \<open>a\<close> as the child of \<open>root\<close>.  Listed with \<open>b\<close> before \<open>a\<close>, the entry of \<open>a\<close>
  is created as a placeholder when \<open>b\<close> is visited; when \<open>a\<close> itself comes, its key is
  already in the tree and the body of the loop is skipped, so \<open>a\<close> is never registered
  under \<open>root\<close>: the two orders give different children for the root.
\<close>

theorem get_pipings_tree_order:
  "mset [pip_root, pip_b, pip_a] = mset [pip_root, pip_a, pip_b] \<and>
   root_of (get_pipings_tree [pip_root, pip_a, pip_b]) = Some 1 \<and>
   root_of (get_pipings_tree [pip_root, pip_b, pip_a]) = Some 1 \<and>
   children_in (get_pipings_tree [pip_root, pip_a, pip_b]) 1 = Some [2] \<and>
   children_in (get_pipings_tree [pip_root, pip_b, pip_a]) 1 = Some []"
  by (simp add: root_of_def children_in_def get_pipings_tree_def get_piping_def pip_root_def
      pip_a_def pip_b_def)

text \<open>
  Claim C6 at the chain pipeline whose pipings \<open>root\<close> and \<open>b\<close> have a string parameter
  and whose piping \<open>a\<close> has an integer parameter.  The defaults come strings first, so
  the titles are met in the order \<open>root\<close>, \<open>b\<close>, \<open>a\<close>; \<open>a\<close> gets its entry in \<open>tree\<close> as the
  parent of \<open>b\<close> and is never added to the children of \<open>root\<close>.  The plan holds the root
  alone: the steps \<open>a\<close> and \<open>b\<close> are missing.  With all defaults in one table, parents
  first, the plan is \<open>root\<close>, \<open>a\<close>, \<open>b\<close>.
\<close>

theorem get_plugin_tree_drops_steps:
  "get_plugin_tree chain_pipeline =
     Some (Inr [\<lparr>node_plugin_id = 10, node_previous = None, node_title = ''root'',
                  plugin_parameter_defaults = [(''dir'', PStr ''/in'')]\<rparr>]) \<and>
   map_option (map_sum id (map node_title)) (get_plugin_tree chain_pipeline_strings) =
     Some (Inr [''root'', ''a'', ''b''])"
  by (simp add: get_plugin_tree_def get_default_parameters_def chain_pipeline_def
      chain_pipeline_strings_def pip_root_def pip_a_def pip_b_def get_piping_def
      dict_update_def breadth_first.simps)

end
